theory Spec2Isabelle
  imports Complex_Main "HOL-Library.Sublist" "HOL-Library.Log_Nat"
begin

section \<open>Data model\<close>

text \<open>
  The script \<^verbatim>\<open>CorrectionStreamlitBtcOption.py\<close> lists the Bitcoin option instruments of
  an exchange, keeps those that expire within a week, fetches a book summary for each of
  them and labels every row of the resulting table.

  An instrument is the dictionary the listing endpoint returns for one option; the script
  reads four of its members, by subscript.
\<close>

record instrument =
  instrument_name :: string
  expiration_timestamp :: int
  strike :: real
  option_type :: string

text \<open>
  A cell of the table holds a number or nothing (\<^verbatim>\<open>None\<close> or NaN, which
  \<^verbatim>\<open>pd.notnull\<close> both reject). The signs of numbers are all the classifier looks at, so
  numbers are reals.
\<close>

type_synonym cell = "real option"

text \<open>
  One row of the frame built by \<^verbatim>\<open>create_options_df\<close>, with the columns of the source.
  The \<^verbatim>\<open>Expiry\<close> column is a calendar day; it is kept as the day's number since the epoch.
\<close>

record row =
  Instrument :: string
  Expiry :: int
  Strike_Price :: real
  Option_Type :: string
  Open_Interest :: cell
  IV_Change :: cell
  Price_Change :: cell

record annotated_row = row +
  Writer_Type :: string

section \<open>Row classifier\<close>

text \<open>The idiom \<^verbatim>\<open>x if pd.notnull(x) else 0\<close> of lines 59 to 61.\<close>

definition notnull_else_0 :: "cell \<Rightarrow> real" where
  "notnull_else_0 x = (case x of Some v \<Rightarrow> v | None \<Rightarrow> 0)"

text \<open>
  \<^verbatim>\<open>identify_writers_with_iv\<close>, lines 58 to 73. An inner \<^verbatim>\<open>if/elif\<close> without a match
  and an option type that is neither string fall through to the last \<^verbatim>\<open>return\<close>.
\<close>

definition identify_writers_with_iv :: "'a row_scheme \<Rightarrow> string" where
  "identify_writers_with_iv row =
     (let price_change = notnull_else_0 (Price_Change row);
          iv_change = notnull_else_0 (IV_Change row);
          open_interest = notnull_else_0 (Open_Interest row)
      in if Option_Type row = ''Call'' then
           (if price_change < 0 \<and> iv_change < 0 \<and> open_interest > 0
              then ''Call Writers (IV Falling)''
            else if price_change > 0 \<and> iv_change > 0 \<and> open_interest < 0
              then ''Call Buyers (IV Rising)''
            else ''Neutral'')
         else if Option_Type row = ''Put'' then
           (if price_change > 0 \<and> iv_change < 0 \<and> open_interest > 0
              then ''Put Writers (IV Falling)''
            else if price_change < 0 \<and> iv_change > 0 \<and> open_interest < 0
              then ''Put Buyers (IV Rising)''
            else ''Neutral'')
         else ''Neutral'')"

text \<open>
  Line 106, \<^verbatim>\<open>df['Writer Type'] = df.apply(identify_writers_with_iv, axis=1)\<close>: the frame
  is the list of its rows, and every row gains the column computed from that row.
\<close>

definition annotate :: "row \<Rightarrow> annotated_row" where
  "annotate r =
     \<lparr>Instrument = Instrument r, Expiry = Expiry r, Strike_Price = Strike_Price r,
      Option_Type = Option_Type r, Open_Interest = Open_Interest r,
      IV_Change = IV_Change r, Price_Change = Price_Change r,
      Writer_Type = identify_writers_with_iv r\<rparr>"

definition apply_identify :: "row list \<Rightarrow> annotated_row list" where
  "apply_identify df = map annotate df"

section \<open>Exceptions\<close>

text \<open>
  The exceptions that leave a function of the script. \<^verbatim>\<open>requests.get\<close> is called outside
  every \<^verbatim>\<open>try\<close> block, so a failure of the transport is an exception that nothing
  catches. Nothing catches the exceptions of the arithmetic on times and of pandas either.
  A timestamp that \<^verbatim>\<open>datetime.utcfromtimestamp\<close> cannot convert raises \<^verbatim>\<open>ValueError\<close>,
  or \<^verbatim>\<open>OSError\<close> or \<^verbatim>\<open>OverflowError\<close> when it is so large that the time functions of
  the platform reject it first; the model has one exception for the three.
\<close>

datatype exn = RequestException | ValueError | OverflowError | Timestamp_out_of_range

section \<open>Floating point\<close>

text \<open>
  A Python \<^verbatim>\<open>float\<close> is a binary64 number. The reals below stand for the finite ones;
  \<open>binary64\<close> is the rounding of a real to the nearest of them, a tie going to the even
  significand. \<open>exponent x\<close> is the power of two at or below \<open>\<bar>x\<bar>\<close>, for \<open>x\<close> other
  than 0, and a binary64 number has 53 significant bits, or fewer below \<open>2 powi - 1022\<close>.
\<close>

definition round_half_even :: "real \<Rightarrow> int" where
  "round_half_even x =
     (let n = \<lfloor>x\<rfloor>; d = x - of_int n
      in if d < 1 / 2 then n
         else if 1 / 2 < d then n + 1
         else if even n then n else n + 1)"

definition exponent :: "real \<Rightarrow> int" where
  "exponent x =
     (if 1 \<le> \<bar>x\<bar> then bitlen \<lfloor>\<bar>x\<bar>\<rfloor> - 1 else - bitlen (\<lceil>1 / \<bar>x\<bar>\<rceil> - 1))"

definition binary64 :: "real \<Rightarrow> real" where
  "binary64 x =
     (if x = 0 then 0
      else let ulp = 2 powi (max (exponent x) (- 1022) - 52)
           in of_int (round_half_even (x / ulp)) * ulp)"

text \<open>
  The division \<^verbatim>\<open>a / b\<close> of two Python integers (\<open>b\<close> is 1000 in the script): the
  quotient rounded once, or \<^verbatim>\<open>OverflowError\<close> when it is too large for a \<^verbatim>\<open>float\<close>.
\<close>

definition int_truediv :: "int \<Rightarrow> int \<Rightarrow> exn + real" where
  "int_truediv a b =
     (let q = binary64 (of_int a / of_int b)
      in if 2 ^ 1024 \<le> \<bar>q\<bar> then Inl OverflowError else Inr q)"

section \<open>Instants\<close>

text \<open>
  A \<^verbatim>\<open>datetime\<close> has microsecond resolution and lies in the years 1 to 9999; it is
  counted in microseconds since the epoch. \<^verbatim>\<open>datetime.utcnow()\<close> is the one reading of
  the clock; it is the parameter \<open>now\<close> of the filter.
\<close>

definition datetime_min :: int where
  "datetime_min = - 62135596800000000"

definition datetime_max :: int where
  "datetime_max = 253402300799999999"

definition timedelta_days :: "int \<Rightarrow> int" where
  "timedelta_days d = d * 86400 * 1000000"

text \<open>\<^verbatim>\<open>datetime + timedelta\<close>, which raises when the sum is not a \<^verbatim>\<open>datetime\<close>.\<close>

definition datetime_add :: "int \<Rightarrow> int \<Rightarrow> exn + int" where
  "datetime_add d delta =
     (if d + delta < datetime_min \<or> datetime_max < d + delta then Inl OverflowError
      else Inr (d + delta))"

text \<open>
  \<^verbatim>\<open>datetime.utcfromtimestamp\<close> on a \<^verbatim>\<open>float\<close> of seconds: the fraction of the second
  (the exact \<^verbatim>\<open>modf\<close>) is multiplied by a million in floating point and rounded to a
  whole number of microseconds, a tie going to the even one; a fraction that rounds to a
  full second or below zero carries into the seconds; then the year must be in range.
\<close>

definition utcfromtimestamp :: "real \<Rightarrow> exn + int" where
  "utcfromtimestamp t =
     (let intpart = (if 0 \<le> t then \<lfloor>t\<rfloor> else \<lceil>t\<rceil>);
          floatpart = round_half_even (binary64 ((t - of_int intpart) * 1000000));
          (seconds, us) =
            (if 1000000 \<le> floatpart then (intpart + 1, floatpart - 1000000)
             else if floatpart < 0 then (intpart - 1, floatpart + 1000000)
             else (intpart, floatpart))
      in if seconds < - 62135596800 \<or> 253402300799 < seconds then Inl Timestamp_out_of_range
         else Inr (seconds * 1000000 + us))"

text \<open>
  Lines 50 to 51, and again lines 81 to 82: the expiration timestamp of an instrument, in
  milliseconds, divided by 1000 and converted.
\<close>

definition expiry_instant :: "instrument \<Rightarrow> exn + int" where
  "expiry_instant option =
     (case int_truediv (expiration_timestamp option) 1000 of
        Inl e \<Rightarrow> Inl e
      | Inr expiry_timestamp \<Rightarrow> utcfromtimestamp expiry_timestamp)"

section \<open>Expiry filter\<close>

text \<open>
  The loop of lines 49 to 54, with the list \<^verbatim>\<open>weekly_options\<close> it appends to as the
  accumulator. A conversion that raises ends the loop.
\<close>

fun weekly_loop :: "int \<Rightarrow> int \<Rightarrow> instrument list \<Rightarrow> instrument list \<Rightarrow> exn + instrument list" where
  "weekly_loop current_time one_week_later [] weekly_options = Inr weekly_options"
| "weekly_loop current_time one_week_later (option # options) weekly_options =
     (case expiry_instant option of
        Inl e \<Rightarrow> Inl e
      | Inr expiry_date \<Rightarrow>
          if current_time \<le> expiry_date \<and> expiry_date \<le> one_week_later
          then weekly_loop current_time one_week_later options (weekly_options @ [option])
          else weekly_loop current_time one_week_later options weekly_options)"

text \<open>\<^verbatim>\<open>filter_weekly_expiry_options\<close>, lines 44 to 56.\<close>

definition filter_weekly_expiry_options :: "int \<Rightarrow> instrument list \<Rightarrow> exn + instrument list" where
  "filter_weekly_expiry_options now options =
     (let weekly_options = [];
          current_time = now
      in case datetime_add current_time (timedelta_days 7) of
           Inl e \<Rightarrow> Inl e
         | Inr one_week_later \<Rightarrow>
             weekly_loop current_time one_week_later options weekly_options)"

section \<open>The exchange and the page\<close>

text \<open>
  What one GET request comes to. The transport fails; or there is a response whose body
  is not JSON (\<^verbatim>\<open>response.json()\<close> raises \<^verbatim>\<open>ValueError\<close>, and the body's text goes into
  the message); or the body decodes. A decoded body is an object that has a member
  \<^verbatim>\<open>result\<close> or has none; in the second case the model keeps the object's printed form,
  which is all the script uses of it.
\<close>

datatype 'a body = Has_result 'a | No_result string

datatype 'a fetch = Transport_Error | Undecodable string | Decoded "'a body"

text \<open>
  A book summary is a JSON object whose members are numbers or \<^verbatim>\<open>null\<close>; it is read
  with \<^verbatim>\<open>result.get(key, None)\<close>, which gives \<^verbatim>\<open>None\<close> for a missing member and for a
  \<^verbatim>\<open>null\<close> one alike.
\<close>

type_synonym book = "string \<rightharpoonup> real option"

definition dict_get :: "book \<Rightarrow> string \<Rightarrow> cell" where
  "dict_get d k = (case d k of Some v \<Rightarrow> v | None \<Rightarrow> None)"

text \<open>
  The exchange at the time of the run: the outcome of the book-summary request for each
  instrument name.
\<close>

type_synonym exchange = "string \<Rightarrow> book list fetch"

text \<open>What the script puts on the page, in order.\<close>

datatype element =
    Title string
  | Subheader string
  | Error string
  | Warning string
  | Dataframe "annotated_row list"
  | Plotly_chart string

text \<open>
  A call of the script either returns a value or raises, and it adds elements to the page
  meanwhile: the elements stay on the page when the call raises.
\<close>

type_synonym 'a io = "(exn + 'a) \<times> element list"

text \<open>\<^verbatim>\<open>get_book_summary\<close>, lines 11 to 20.\<close>

definition get_book_summary :: "exchange \<Rightarrow> string \<Rightarrow> book list body option io" where
  "get_book_summary net name =
     (case net name of
        Transport_Error \<Rightarrow> (Inl RequestException, [])
      | Undecodable text \<Rightarrow>
          (Inr None, [Error (''Error decoding JSON response for '' @ name @ '': '' @ text)])
      | Decoded summary \<Rightarrow> (Inr (Some summary), []))"

text \<open>\<^verbatim>\<open>get_all_btc_options\<close>, lines 23 to 41.\<close>

definition get_all_btc_options :: "instrument list fetch \<Rightarrow> instrument list io" where
  "get_all_btc_options response =
     (case response of
        Transport_Error \<Rightarrow> (Inl RequestException, [])
      | Undecodable text \<Rightarrow> (Inr [], [Error (''Error decoding JSON response: '' @ text)])
      | Decoded (Has_result result) \<Rightarrow> (Inr result, [])
      | Decoded (No_result data) \<Rightarrow> (Inr [], [Error (''Error in response: '' @ data)]))"

section \<open>Building the table\<close>

text \<open>
  The day of an instant, for the \<^verbatim>\<open>Expiry\<close> column (line 82 formats it as
  \<^verbatim>\<open>%Y-%m-%d\<close>).
\<close>

definition expiry_day :: "int \<Rightarrow> int" where
  "expiry_day instant = instant div timedelta_days 1"

text \<open>
  Lines 87 to 100: the row appended for an instrument whose summary has a \<^verbatim>\<open>result\<close>,
  which is a list of books. The first book is read, or the empty object when the list is
  empty. \<^verbatim>\<open>expiry_date\<close> is the local variable of line 82.
\<close>

definition make_row :: "instrument \<Rightarrow> int \<Rightarrow> book list \<Rightarrow> row" where
  "make_row option expiry_date results =
     (let result = (case results of r # _ \<Rightarrow> r | [] \<Rightarrow> Map.empty);
          open_interest = dict_get result ''open_interest'';
          iv_change = dict_get result ''iv'';
          price_change = dict_get result ''last''
      in \<lparr>Instrument = instrument_name option,
          Expiry = expiry_date,
          Strike_Price = strike option,
          Option_Type = (if option_type option = ''call'' then ''Call'' else ''Put''),
          Open_Interest = open_interest,
          IV_Change = iv_change,
          Price_Change = price_change\<rparr>)"

text \<open>
  The loop of lines 79 to 100, with the list \<^verbatim>\<open>data\<close> as the accumulator. The expiry
  is converted before the summary is fetched. The test
  \<^verbatim>\<open>summary and 'result' in summary\<close> holds exactly of a decoded object with a member
  \<^verbatim>\<open>result\<close>.
\<close>

fun options_loop :: "exchange \<Rightarrow> instrument list \<Rightarrow> row list \<Rightarrow> row list io" where
  "options_loop net [] data = (Inr data, [])"
| "options_loop net (option # options) data =
     (case expiry_instant option of
        Inl e \<Rightarrow> (Inl e, [])
      | Inr instant \<Rightarrow>
          (let expiry_date = expiry_day instant
           in case get_book_summary net (instrument_name option) of
                (Inl e, out) \<Rightarrow> (Inl e, out)
              | (Inr summary, out) \<Rightarrow>
                  (let data' = (case summary of
                                  Some (Has_result results) \<Rightarrow>
                                    data @ [make_row option expiry_date results]
                                | Some (No_result _) \<Rightarrow> data
                                | None \<Rightarrow> data)
                   in case options_loop net options data' of
                        (r, out') \<Rightarrow> (r, out @ out'))))"

text \<open>
  \<^verbatim>\<open>create_options_df\<close>, lines 76 to 108. When the loop has gathered no row, the frame
  has no column, \<^verbatim>\<open>df.apply\<close> returns a frame without columns, and the assignment of
  line 106 raises \<^verbatim>\<open>ValueError\<close>.
\<close>

definition create_options_df :: "exchange \<Rightarrow> instrument list \<Rightarrow> annotated_row list io" where
  "create_options_df net options =
     (case options_loop net options [] of
        (Inl e, out) \<Rightarrow> (Inl e, out)
      | (Inr data, out) \<Rightarrow>
          if data = [] then (Inl ValueError, out)
          else (Inr (apply_identify data), out))"

section \<open>The dashboard\<close>

text \<open>
  The top level of the script, lines 111 to 150. A chart is kept by its title. The guard
  \<^verbatim>\<open>if btc_options:\<close> holds of a list that is not empty.
\<close>

definition render :: "annotated_row list \<Rightarrow> element list" where
  "render options_df =
     [Subheader ''Weekly Expiring Bitcoin Options (Calls & Puts)'',
      Dataframe options_df,
      Subheader ''Open Interest by Instrument'',
      Plotly_chart ''Open Interest by Instrument'',
      Subheader ''Call vs Put Distribution'',
      Plotly_chart ''Call vs Put Distribution'',
      Subheader ''Call/Put Writers vs Buyers'',
      Plotly_chart ''Call/Put Writers vs Buyers'']"

definition dashboard :: "int \<Rightarrow> instrument list fetch \<Rightarrow> exchange \<Rightarrow> unit io" where
  "dashboard now listing net =
     (let title = Title ''Bitcoin Weekly Options Dashboard (Deribit)''
      in case get_all_btc_options listing of
           (Inl e, out) \<Rightarrow> (Inl e, title # out)
         | (Inr btc_options, out) \<Rightarrow>
             if btc_options \<noteq> [] then
               (case filter_weekly_expiry_options now btc_options of
                  Inl e \<Rightarrow> (Inl e, title # out)
                | Inr weekly_options \<Rightarrow>
                    if length weekly_options > 0 then
                      (case create_options_df net weekly_options of
                         (Inl e, out') \<Rightarrow> (Inl e, title # out @ out')
                       | (Inr options_df, out') \<Rightarrow>
                           (Inr (), title # out @ out' @ render options_df))
                    else (Inr (), title # out @ [Warning ''No weekly expiring options found.'']))
             else (Inr (), title # out @ [Error ''Failed to fetch BTC options from Deribit.'']))"

section \<open>Example inputs\<close>

text \<open>
  Three options that expire on 27 December 2024 at 08:00 UTC. The third one carries an
  option type in a spelling the exchange does not use.
\<close>

definition example_call :: instrument where
  "example_call =
     \<lparr>instrument_name = ''BTC-27DEC24-60000-C'', expiration_timestamp = 1735286400000,
      strike = 60000, option_type = ''call''\<rparr>"

definition example_put :: instrument where
  "example_put =
     \<lparr>instrument_name = ''BTC-27DEC24-60000-P'', expiration_timestamp = 1735286400000,
      strike = 60000, option_type = ''put''\<rparr>"

definition example_odd :: instrument where
  "example_odd =
     \<lparr>instrument_name = ''BTC-27DEC24-70000-C'', expiration_timestamp = 1735286400000,
      strike = 70000, option_type = ''Call''\<rparr>"



text \<open>22 December 2024, 08:00 UTC: five days before the three options expire.\<close>

definition example_now :: int where
  "example_now = 1734854400000000"

definition example_book :: book where
  "example_book = [''open_interest'' \<mapsto> Some 10, ''iv'' \<mapsto> Some (- 2), ''last'' \<mapsto> Some (- 5)]"

text \<open>
  An exchange that answers the request for the put with a body that is not JSON, the
  request for the third option with an empty list of books, and any request for an
  instrument other than the three with an object that has no \<^verbatim>\<open>result\<close>.
\<close>

definition example_exchange :: exchange where
  "example_exchange name =
     (if name = ''BTC-27DEC24-60000-C'' then Decoded (Has_result [example_book])
      else if name = ''BTC-27DEC24-60000-P'' then Undecodable ''Bad Gateway''
      else if name = ''BTC-27DEC24-70000-C'' then Decoded (Has_result [])
      else Decoded (No_result ''{}''))"

text \<open>The same exchange, but the request for the put does not get through.\<close>

definition unreachable_exchange :: exchange where
  "unreachable_exchange name =
     (if name = ''BTC-27DEC24-60000-P'' then Transport_Error else example_exchange name)"

section \<open>Properties of the row classifier\<close>

text \<open>
  Claim C1. The label is the one the rule table gives. A field that is present counts as
  its value and an absent field counts as 0. Each of the four writer and buyer labels is
  returned exactly when the option type and the three fields meet its own condition, and
  \<^verbatim>\<open>Neutral\<close> is returned exactly when none of the four conditions is met, which
  includes every case with a zero or absent field. The two examples of the specification
  are the last two lines.
\<close>

theorem classifier_rule_table:
  "(identify_writers_with_iv r = ''Call Writers (IV Falling)'' \<longleftrightarrow>
      Option_Type r = ''Call'' \<and>
      (case Price_Change r of None \<Rightarrow> 0 | Some p \<Rightarrow> p) < 0 \<and>
      (case IV_Change r of None \<Rightarrow> 0 | Some i \<Rightarrow> i) < 0 \<and>
      (case Open_Interest r of None \<Rightarrow> 0 | Some oi \<Rightarrow> oi) > 0) \<and>
   (identify_writers_with_iv r = ''Call Buyers (IV Rising)'' \<longleftrightarrow>
      Option_Type r = ''Call'' \<and>
      (case Price_Change r of None \<Rightarrow> 0 | Some p \<Rightarrow> p) > 0 \<and>
      (case IV_Change r of None \<Rightarrow> 0 | Some i \<Rightarrow> i) > 0 \<and>
      (case Open_Interest r of None \<Rightarrow> 0 | Some oi \<Rightarrow> oi) < 0) \<and>
   (identify_writers_with_iv r = ''Put Writers (IV Falling)'' \<longleftrightarrow>
      Option_Type r = ''Put'' \<and>
      (case Price_Change r of None \<Rightarrow> 0 | Some p \<Rightarrow> p) > 0 \<and>
      (case IV_Change r of None \<Rightarrow> 0 | Some i \<Rightarrow> i) < 0 \<and>
      (case Open_Interest r of None \<Rightarrow> 0 | Some oi \<Rightarrow> oi) > 0) \<and>
   (identify_writers_with_iv r = ''Put Buyers (IV Rising)'' \<longleftrightarrow>
      Option_Type r = ''Put'' \<and>
      (case Price_Change r of None \<Rightarrow> 0 | Some p \<Rightarrow> p) < 0 \<and>
      (case IV_Change r of None \<Rightarrow> 0 | Some i \<Rightarrow> i) > 0 \<and>
      (case Open_Interest r of None \<Rightarrow> 0 | Some oi \<Rightarrow> oi) < 0) \<and>
   (identify_writers_with_iv r = ''Neutral'' \<longleftrightarrow>
      \<not> (Option_Type r = ''Call'' \<and>
         (case Price_Change r of None \<Rightarrow> 0 | Some p \<Rightarrow> p) < 0 \<and>
         (case IV_Change r of None \<Rightarrow> 0 | Some i \<Rightarrow> i) < 0 \<and>
         (case Open_Interest r of None \<Rightarrow> 0 | Some oi \<Rightarrow> oi) > 0) \<and>
      \<not> (Option_Type r = ''Call'' \<and>
         (case Price_Change r of None \<Rightarrow> 0 | Some p \<Rightarrow> p) > 0 \<and>
         (case IV_Change r of None \<Rightarrow> 0 | Some i \<Rightarrow> i) > 0 \<and>
         (case Open_Interest r of None \<Rightarrow> 0 | Some oi \<Rightarrow> oi) < 0) \<and>
      \<not> (Option_Type r = ''Put'' \<and>
         (case Price_Change r of None \<Rightarrow> 0 | Some p \<Rightarrow> p) > 0 \<and>
         (case IV_Change r of None \<Rightarrow> 0 | Some i \<Rightarrow> i) < 0 \<and>
         (case Open_Interest r of None \<Rightarrow> 0 | Some oi \<Rightarrow> oi) > 0) \<and>
      \<not> (Option_Type r = ''Put'' \<and>
         (case Price_Change r of None \<Rightarrow> 0 | Some p \<Rightarrow> p) < 0 \<and>
         (case IV_Change r of None \<Rightarrow> 0 | Some i \<Rightarrow> i) > 0 \<and>
         (case Open_Interest r of None \<Rightarrow> 0 | Some oi \<Rightarrow> oi) < 0)) \<and>
   identify_writers_with_iv
     (r\<lparr>Option_Type := ''Call'', Price_Change := Some (- 5), IV_Change := Some (- 2),
        Open_Interest := Some 10\<rparr>) = ''Call Writers (IV Falling)'' \<and>
   identify_writers_with_iv
     (r\<lparr>Option_Type := ''Put'', Price_Change := Some 3, IV_Change := Some (- 1),
        Open_Interest := Some 50\<rparr>) = ''Put Writers (IV Falling)''"
  unfolding identify_writers_with_iv_def notnull_else_0_def Let_def
  by auto

text \<open>
  Claim C3. A row whose open interest is not negative (absent counts as zero) never gets
  a buyers label; and the call with price change 5, IV change 3 and open interest 100 is
  \<^verbatim>\<open>Neutral\<close>, whatever its other columns hold.
\<close>

theorem buyers_need_negative_open_interest:
  "(0 \<le> notnull_else_0 (Open_Interest r) \<longrightarrow>
      identify_writers_with_iv r \<noteq> ''Call Buyers (IV Rising)'' \<and>
      identify_writers_with_iv r \<noteq> ''Put Buyers (IV Rising)'') \<and>
   identify_writers_with_iv
     (r\<lparr>Option_Type := ''Call'', Price_Change := Some 5, IV_Change := Some 3,
        Open_Interest := Some 100\<rparr>) = ''Neutral''"
  unfolding identify_writers_with_iv_def Let_def
  by (simp add: notnull_else_0_def)

text \<open>
  The theorem at a put whose price fell and whose IV rose, with open interest zero: only
  the sign of the open interest keeps it from the put buyers.
\<close>

theorem buyers_need_negative_open_interest_witness:
  "0 \<le> notnull_else_0 (Open_Interest
      \<lparr>Instrument = ''BTC-27DEC24-60000-P'', Expiry = 20084, Strike_Price = 60000,
       Option_Type = ''Put'', Open_Interest = Some 0, IV_Change = Some 4,
       Price_Change = Some (- 2)\<rparr>) \<and>
   identify_writers_with_iv
      \<lparr>Instrument = ''BTC-27DEC24-60000-P'', Expiry = 20084, Strike_Price = 60000,
       Option_Type = ''Put'', Open_Interest = Some 0, IV_Change = Some 4,
       Price_Change = Some (- 2)\<rparr> \<noteq> ''Put Buyers (IV Rising)''"
  using buyers_need_negative_open_interest
    [of "\<lparr>Instrument = ''BTC-27DEC24-60000-P'', Expiry = 20084, Strike_Price = 60000,
       Option_Type = ''Put'', Open_Interest = Some 0, IV_Change = Some 4,
       Price_Change = Some (- 2)\<rparr>"]
  by (simp add: notnull_else_0_def)

text \<open>
  Claim C4. An absent field is classified as the value 0 is: take any row and any subset
  of the three fields (the flags \<open>p\<close>, \<open>i\<close> and \<open>oi\<close> choose it); the row with those
  fields absent and the row with those fields 0 get the same label.
\<close>

theorem absent_classified_as_zero:
  "identify_writers_with_iv
     (r\<lparr>Price_Change := (if p then None else Price_Change r),
        IV_Change := (if i then None else IV_Change r),
        Open_Interest := (if oi then None else Open_Interest r)\<rparr>) =
   identify_writers_with_iv
     (r\<lparr>Price_Change := (if p then Some 0 else Price_Change r),
        IV_Change := (if i then Some 0 else IV_Change r),
        Open_Interest := (if oi then Some 0 else Open_Interest r)\<rparr>)"
  by (cases p; cases i; cases oi)
    (simp_all add: identify_writers_with_iv_def Let_def notnull_else_0_def)

text \<open>
  Claim C5. The classifier is total: on every row (with any string as option type, and
  numbers or nothing in the three fields) it returns one of the five labels; and in the
  table the label of a row is the classifier's value on that row, whatever rows stand
  before and after it.
\<close>

theorem classifier_total:
  "identify_writers_with_iv r \<in>
     {''Call Writers (IV Falling)'', ''Call Buyers (IV Rising)'',
      ''Put Writers (IV Falling)'', ''Put Buyers (IV Rising)'', ''Neutral''} \<and>
   map Writer_Type (apply_identify (earlier @ r # later)) ! length earlier =
     identify_writers_with_iv r"
  by (simp add: identify_writers_with_iv_def Let_def apply_identify_def annotate_def nth_append)

text \<open>Two numbers of the same sign are negative together and positive together.\<close>

lemma same_sign:
  fixes x y :: real
  assumes "sgn x = sgn y"
  shows "x < 0 \<longleftrightarrow> y < 0" and "0 < x \<longleftrightarrow> 0 < y"
  using assms by (metis sgn_1_neg, metis sgn_1_pos)

text \<open>
  Claim C6. The label depends on the option type and on the signs of the three fields
  only (absent counting as zero): two rows that agree on these four get the same label.
  That the same row always gets the same label is the case of a row and itself.
\<close>

theorem label_depends_on_signs_only:
  assumes "Option_Type r = Option_Type r'"
    and "sgn (notnull_else_0 (Price_Change r)) = sgn (notnull_else_0 (Price_Change r'))"
    and "sgn (notnull_else_0 (IV_Change r)) = sgn (notnull_else_0 (IV_Change r'))"
    and "sgn (notnull_else_0 (Open_Interest r)) = sgn (notnull_else_0 (Open_Interest r'))"
  shows "identify_writers_with_iv r = identify_writers_with_iv r'"
proof -
  have "notnull_else_0 (Price_Change r) < 0 \<longleftrightarrow> notnull_else_0 (Price_Change r') < 0"
    and "0 < notnull_else_0 (Price_Change r) \<longleftrightarrow> 0 < notnull_else_0 (Price_Change r')"
    using assms(2) by (rule same_sign)+
  moreover have "notnull_else_0 (IV_Change r) < 0 \<longleftrightarrow> notnull_else_0 (IV_Change r') < 0"
    and "0 < notnull_else_0 (IV_Change r) \<longleftrightarrow> 0 < notnull_else_0 (IV_Change r')"
    using assms(3) by (rule same_sign)+
  moreover have "notnull_else_0 (Open_Interest r) < 0 \<longleftrightarrow> notnull_else_0 (Open_Interest r') < 0"
    and "0 < notnull_else_0 (Open_Interest r) \<longleftrightarrow> 0 < notnull_else_0 (Open_Interest r')"
    using assms(4) by (rule same_sign)+
  ultimately show ?thesis
    using assms(1) by (simp add: identify_writers_with_iv_def Let_def)
qed

text \<open>
  Two different calls, both with falling price, falling IV and positive open interest:
  one label.
\<close>

theorem label_depends_on_signs_only_witness:
  "identify_writers_with_iv
     \<lparr>Instrument = ''BTC-27DEC24-60000-C'', Expiry = 20084, Strike_Price = 60000,
      Option_Type = ''Call'', Open_Interest = Some 10, IV_Change = Some (- 2),
      Price_Change = Some (- 5)\<rparr> =
   identify_writers_with_iv
     \<lparr>Instrument = ''BTC-3JAN25-90000-C'', Expiry = 20091, Strike_Price = 90000,
      Option_Type = ''Call'', Open_Interest = Some 3, IV_Change = Some (- 7),
      Price_Change = Some (- 1)\<rparr>"
  by (rule label_depends_on_signs_only) (simp_all add: notnull_else_0_def)

section \<open>Properties of the floating-point conversion\<close>

text \<open>Rounding to a whole number: what lies within a half of an integer goes to it.\<close>

lemma round_half_even_eqI:
  assumes "\<bar>x - of_int k\<bar> < 1 / 2"
  shows "round_half_even x = k"
proof (cases "of_int k \<le> x")
  case True
  with assms have "\<lfloor>x\<rfloor> = k" by linarith
  with assms True show ?thesis
    by (simp add: round_half_even_def Let_def)
next
  case False
  with assms have fl: "\<lfloor>x\<rfloor> = k - 1" by linarith
  from assms False have "1 / 2 < x - of_int (k - 1)" by simp
  with fl show ?thesis
    by (simp add: round_half_even_def Let_def)
qed

lemma round_half_even_of_int: "round_half_even (of_int n) = n"
  by (rule round_half_even_eqI) simp

lemma round_half_even_error: "\<bar>of_int (round_half_even x) - x\<bar> \<le> 1 / 2"
proof -
  have "of_int \<lfloor>x\<rfloor> \<le> x" and "x < of_int \<lfloor>x\<rfloor> + 1" by linarith+
  then show ?thesis
    by (auto simp add: round_half_even_def Let_def)
qed

text \<open>\<open>exponent x\<close> is the power of two at or below \<open>\<bar>x\<bar>\<close>.\<close>

lemma exponent_bounds:
  assumes "x \<noteq> 0"
  shows "2 powi exponent x \<le> \<bar>x\<bar>" and "\<bar>x\<bar> < 2 powi (exponent x + 1)"
proof -
  have "2 powi exponent x \<le> \<bar>x\<bar> \<and> \<bar>x\<bar> < 2 powi (exponent x + 1)"
  proof (cases "1 \<le> \<bar>x\<bar>")
    case True
    define m where "m = \<lfloor>\<bar>x\<bar>\<rfloor>"
    have m: "0 < m" "of_int m \<le> \<bar>x\<bar>" "\<bar>x\<bar> < of_int m + 1"
      using True unfolding m_def by linarith+
    define b where "b = bitlen m"
    have b1: "1 \<le> b" using m(1) by (simp add: b_def bitlen_alt_def)
    have bb: "2 ^ nat (b - 1) \<le> m" "m < 2 ^ nat b"
      using bitlen_bounds [OF m(1)] by (simp_all add: b_def)
    have e: "exponent x = b - 1"
      using True by (simp add: exponent_def m_def b_def)
    have "(2::real) powi (b - 1) = of_int (2 ^ nat (b - 1))"
      using b1 by (simp add: power_int_def)
    also have "\<dots> \<le> of_int m" using bb(1) by (simp only: of_int_le_iff)
    finally have lo: "2 powi (b - 1) \<le> \<bar>x\<bar>" using m(2) by linarith
    have "m + 1 \<le> 2 ^ nat b" using bb(2) by simp
    then have "of_int (m + 1) \<le> (of_int (2 ^ nat b) :: real)" by (simp only: of_int_le_iff)
    moreover have "(2::real) powi b = of_int (2 ^ nat b)"
      using b1 by (simp add: power_int_def)
    ultimately have hi: "\<bar>x\<bar> < 2 powi b" using m(3) by simp
    from lo hi e show ?thesis by simp
  next
    case False
    define y where "y = 1 / \<bar>x\<bar>"
    have xpos: "0 < \<bar>x\<bar>" using assms by simp
    have y1: "1 < y" using False xpos by (simp add: y_def)
    define c where "c = \<lceil>y\<rceil> - 1"
    have c: "0 < c" "of_int c < y" "y \<le> of_int c + 1"
      using y1 unfolding c_def by linarith+
    define b where "b = bitlen c"
    have b1: "1 \<le> b" using c(1) by (simp add: b_def bitlen_alt_def)
    have bb: "2 ^ nat (b - 1) \<le> c" "c < 2 ^ nat b"
      using bitlen_bounds [OF c(1)] by (simp_all add: b_def)
    have e: "exponent x = - b"
      using False by (simp add: exponent_def y_def c_def b_def)
    have "c + 1 \<le> 2 ^ nat b" using bb(2) by simp
    then have "of_int (c + 1) \<le> (of_int (2 ^ nat b) :: real)" by (simp only: of_int_le_iff)
    then have yle: "y \<le> 2 ^ nat b" using c(3) by simp
    have "(2::real) ^ nat (b - 1) = of_int (2 ^ nat (b - 1))" by simp
    also have "\<dots> \<le> of_int c" using bb(1) by (simp only: of_int_le_iff)
    also note c(2)
    finally have ygt: "2 ^ nat (b - 1) < y" .
    have x_eq: "\<bar>x\<bar> = 1 / y" using xpos by (simp add: y_def)
    have "(2::real) powi (- b) = 1 / 2 ^ nat b"
      using b1 by (simp add: power_int_def inverse_eq_divide power_inverse [symmetric] divide_simps)
    also have "\<dots> \<le> 1 / y"
      using yle y1 by (simp add: frac_le)
    finally have lo: "2 powi (- b) \<le> \<bar>x\<bar>" by (simp add: x_eq)
    have "1 / y < 1 / 2 ^ nat (b - 1)"
      using ygt by (simp add: frac_less2)
    also have "\<dots> = (2::real) powi (- b + 1)"
      using b1 by (cases "b = 1") (simp_all add: power_int_def inverse_eq_divide power_inverse [symmetric] divide_simps nat_diff_distrib)
    finally have hi: "\<bar>x\<bar> < 2 powi (- b + 1)" by (simp add: x_eq)
    from lo hi e show ?thesis by simp
  qed
  then show "2 powi exponent x \<le> \<bar>x\<bar>" and "\<bar>x\<bar> < 2 powi (exponent x + 1)" by simp_all
qed

lemma exponent_less:
  assumes "x \<noteq> 0" and "\<bar>x\<bar> < 2 powi m"
  shows "exponent x < m"
proof (rule ccontr)
  assume "\<not> exponent x < m"
  then have "(2::real) powi m \<le> 2 powi exponent x"
    by (intro power_int_increasing) simp_all
  with exponent_bounds(1) [OF assms(1)] assms(2) show False by linarith
qed

lemma exponent_ge:
  assumes "x \<noteq> 0" and "2 powi m \<le> \<bar>x\<bar>"
  shows "m \<le> exponent x"
proof (rule ccontr)
  assume "\<not> m \<le> exponent x"
  then have "(2::real) powi (exponent x + 1) \<le> 2 powi m"
    by (intro power_int_increasing) simp_all
  with exponent_bounds(2) [OF assms(1)] assms(2) show False by linarith
qed

text \<open>
  Rounding to binary64 moves a number below \<open>2 powi m\<close> by at most half a unit in the
  last place, and it leaves a whole number below \<open>2 ^ 53\<close> where it is.
\<close>

lemma binary64_error:
  assumes "\<bar>x\<bar> < 2 powi m" and "- 1021 \<le> m"
  shows "\<bar>binary64 x - x\<bar> \<le> 2 powi (m - 54)"
proof (cases "x = 0")
  case True
  then show ?thesis by (simp add: binary64_def)
next
  case False
  define u :: real where "u = 2 powi (max (exponent x) (- 1022) - 52)"
  have upos: "0 < u" by (simp add: u_def)
  have "max (exponent x) (- 1022) - 52 \<le> m - 53"
    using exponent_less [OF False assms(1)] assms(2) by simp
  then have "u \<le> 2 powi (m - 53)"
    unfolding u_def by (intro power_int_increasing) simp_all
  also have "(2::real) powi (m - 53) = 2 * 2 powi (m - 54)"
    using power_int_add [of "2::real" 1 "m - 54"] by simp
  finally have ule: "u / 2 \<le> 2 powi (m - 54)" by simp
  have "binary64 x - x = (of_int (round_half_even (x / u)) - x / u) * u"
    using False upos by (simp add: binary64_def Let_def u_def [symmetric] algebra_simps)
  then have "\<bar>binary64 x - x\<bar> = \<bar>of_int (round_half_even (x / u)) - x / u\<bar> * u"
    using upos by (simp add: abs_mult)
  also have "\<dots> \<le> 1 / 2 * u"
    using round_half_even_error [of "x / u"] upos by (intro mult_right_mono) simp_all
  finally show ?thesis using ule by simp
qed

lemma binary64_of_int:
  assumes "0 \<le> n" and "n < 2 ^ 53"
  shows "binary64 (of_int n) = of_int n"
proof (cases "n = 0")
  case True
  then show ?thesis by (simp add: binary64_def)
next
  case False
  let ?x = "real_of_int n"
  have x0: "?x \<noteq> 0" using False by simp
  have "1 \<le> n" using assms(1) False by simp
  then have "(2::real) powi 0 \<le> \<bar>?x\<bar>" by simp
  then have e0: "0 \<le> exponent ?x" by (rule exponent_ge [OF x0])
  have "?x < of_int (2 ^ 53)" using assms(2) by (simp only: of_int_less_iff)
  then have "\<bar>?x\<bar> < 2 powi 53" using assms(1) by simp
  then have e52: "exponent ?x \<le> 52" using exponent_less [OF x0] by fastforce
  define k where "k = nat (52 - exponent ?x)"
  have u: "(2::real) powi (max (exponent ?x) (- 1022) - 52) = 1 / 2 ^ k"
    using e0 e52 by (simp add: power_int_def k_def max_def inverse_eq_divide power_inverse [symmetric] divide_simps)
  have "?x / (1 / 2 ^ k) = of_int (n * 2 ^ k)" by simp
  then have "round_half_even (?x / (1 / 2 ^ k)) = n * 2 ^ k"
    by (simp only: round_half_even_of_int)
  then show ?thesis
    using x0 by (simp add: binary64_def Let_def u)
qed

text \<open>A whole number of seconds inside the range is converted as it is.\<close>

lemma utcfromtimestamp_whole_seconds:
  assumes "0 \<le> n" and "n \<le> 253402300799"
  shows "utcfromtimestamp (of_int n) = Inr (n * 1000000)"
  using assms by (simp add: utcfromtimestamp_def binary64_def round_half_even_of_int [of 0, simplified])

text \<open>
  Below \<open>2 ^ 33\<close> seconds (in the year 2242) the two roundings, of the division and of
  the multiplication, together stay below half a microsecond, so a whole number of
  milliseconds is converted to exactly that instant. From \<open>2 ^ 33\<close> seconds on they do
  not.
\<close>

lemma expiry_instant_milliseconds:
  assumes "0 \<le> expiration_timestamp option" and "expiration_timestamp option < 8589934592000"
  shows "expiry_instant option = Inr (expiration_timestamp option * 1000)"
proof -
  define ms where "ms = expiration_timestamp option"
  have assms': "0 \<le> ms" "ms < 8589934592000" using assms by (simp_all add: ms_def)
  define n where "n = ms div 1000"
  define k where "k = ms mod 1000"
  have ms: "ms = n * 1000 + k" by (simp add: n_def k_def)
  have k: "0 \<le> k" "k < 1000" by (simp_all add: k_def)
  have n: "0 \<le> n" "n < 8589934592" using assms' by (simp_all add: n_def)
  define q where "q = real_of_int ms / 1000"
  have q: "q = of_int n + of_int k / 1000" by (simp add: q_def ms)
  show ?thesis
  proof (cases "k = 0")
    case True
    then have "q = of_int n" by (simp add: q)
    moreover have "binary64 (of_int n) = of_int n"
      using n by (intro binary64_of_int) simp_all
    moreover have "\<bar>real_of_int n\<bar> < 2 ^ 1024"
    proof -
      have "real_of_int n < of_int 8589934592" using n(2) by (simp only: of_int_less_iff)
      then show ?thesis using n(1) by simp
    qed
    ultimately have "int_truediv ms 1000 = Inr (of_int n)"
      by (simp add: int_truediv_def Let_def q_def [symmetric])
    moreover have "utcfromtimestamp (of_int n) = Inr (n * 1000000)"
      using n by (intro utcfromtimestamp_whole_seconds) simp_all
    ultimately show ?thesis
      using True by (simp add: expiry_instant_def ms_def [symmetric] ms)
  next
    case False
    with k have k1: "1 \<le> k" "k \<le> 999" by simp_all
    have rk: "1 \<le> real_of_int k" "real_of_int k \<le> 999"
      using k1 by simp_all
    have rn: "0 \<le> real_of_int n" "real_of_int n \<le> 8589934591"
    proof -
      show "0 \<le> real_of_int n" using n(1) by simp
      have "n \<le> 8589934591" using n(2) by simp
      then have "real_of_int n \<le> of_int 8589934591" by (simp only: of_int_le_iff)
      then show "real_of_int n \<le> 8589934591" by simp
    qed
    define t where "t = binary64 q"
    have "\<bar>q\<bar> < 8589934592" using rk rn q by linarith
    then have "\<bar>q\<bar> < 2 powi 33" by simp
    then have "\<bar>t - q\<bar> \<le> 2 powi (33 - 54)"
      unfolding t_def by (rule binary64_error) simp
    then have tq: "\<bar>t - q\<bar> \<le> 1 / 2097152" by simp
    have t_lo: "of_int n + of_int k / 1000 - 1 / 2097152 \<le> t"
      using tq q by linarith
    have t_hi: "t \<le> of_int n + of_int k / 1000 + 1 / 2097152"
      using tq q by linarith
    have t0: "0 \<le> t" using t_lo rk rn by linarith
    have fl: "\<lfloor>t\<rfloor> = n"
    proof -
      have "of_int n \<le> t" using t_lo rk by linarith
      moreover have "t < of_int n + 1" using t_hi rk by linarith
      ultimately show ?thesis by linarith
    qed
    have "\<bar>t\<bar> < 2 ^ 1024"
    proof -
      have "t < 8589934592" using t_hi rk rn by linarith
      also have "(8589934592::real) \<le> 2 ^ 1024" by simp
      finally show ?thesis using t0 by simp
    qed
    then have div: "int_truediv ms 1000 = Inr t"
      by (simp add: int_truediv_def Let_def q_def [symmetric] t_def [symmetric])
    define y where "y = (t - of_int n) * 1000000"
    have y_lo: "of_int k * 1000 - 1000000 / 2097152 \<le> y"
      using t_lo unfolding y_def by argo
    have y_hi: "y \<le> of_int k * 1000 + 1000000 / 2097152"
      using t_hi unfolding y_def by argo
    have "\<bar>y\<bar> < 1048576" using y_lo y_hi rk by linarith
    then have "\<bar>y\<bar> < 2 powi 20" by simp
    then have "\<bar>binary64 y - y\<bar> \<le> 2 powi (20 - 54)"
      by (rule binary64_error) simp
    then have "\<bar>binary64 y - y\<bar> \<le> 1 / 17179869184" by simp
    moreover have "real_of_int (k * 1000) = of_int k * 1000" by simp
    ultimately have "\<bar>binary64 y - of_int (k * 1000)\<bar> < 1 / 2"
      using y_lo y_hi by linarith
    then have us: "round_half_even (binary64 y) = k * 1000"
      by (rule round_half_even_eqI)
    have ip: "(if 0 \<le> t then \<lfloor>t\<rfloor> else \<lceil>t\<rceil>) = n"
      using t0 fl by simp
    have "utcfromtimestamp t = Inr (n * 1000000 + k * 1000)"
      unfolding utcfromtimestamp_def ip Let_def y_def [symmetric] us
      using k1 n by simp
    with div show ?thesis
      by (simp add: expiry_instant_def ms_def [symmetric] ms)
  qed
qed

text \<open>
  The conversion at particular values: a tie of half a microsecond goes to the even
  microsecond; a millisecond before the epoch; the last millisecond of the year 9999,
  which the division moves by seven microseconds; and a timestamp whose quotient
  is too large for a \<^verbatim>\<open>float\<close>.
\<close>

lemma conversion_examples:
  "utcfromtimestamp (1 / 128) = Inr 7812"
  "expiry_instant (example_call\<lparr>expiration_timestamp := - 1\<rparr>) = Inr (- 1000)"
  "expiry_instant (example_call\<lparr>expiration_timestamp := 253402300799999\<rparr>) =
     Inr 253402300799998993"
  by code_simp+

lemma division_overflow_example:
  assumes "expiration_timestamp option = 10 ^ 400"
  shows "expiry_instant option = Inl OverflowError"
proof -
  define q :: real where "q = real_of_int (10 ^ 400) / real_of_int 1000"
  have q: "q = 10 ^ 397" by (simp add: q_def)
  have "\<bar>q\<bar> < 2 powi 1320" by (simp add: q)
  then have "\<bar>binary64 q - q\<bar> \<le> 2 powi (1320 - 54)" by (rule binary64_error) simp
  then have "\<bar>binary64 q - q\<bar> \<le> 2 ^ 1266" by simp
  moreover have "(2::real) ^ 1024 + 2 ^ 1266 \<le> 10 ^ 397" by simp
  ultimately have big: "2 ^ 1024 \<le> \<bar>binary64 q\<bar>" using q by linarith
  show ?thesis
    unfolding expiry_instant_def assms int_truediv_def Let_def q_def [symmetric]
    by (simp only: big if_True sum.case)
qed

section \<open>Properties of the expiry filter\<close>





section \<open>Properties of the table\<close>

text \<open>
  One turn of the loop of \<^verbatim>\<open>create_options_df\<close>, for an instrument whose expiry
  converts and for one whose expiry does not.
\<close>

lemma options_loop_step:
  assumes "expiry_instant option = Inr instant"
  shows "options_loop net (option # options) data =
     (case net (instrument_name option) of
        Transport_Error \<Rightarrow> (Inl RequestException, [])
      | Undecodable raw \<Rightarrow>
          (case options_loop net options data of
             (r, out) \<Rightarrow>
               (r, Error (''Error decoding JSON response for '' @ instrument_name option @
                          '': '' @ raw) # out))
      | Decoded (Has_result results) \<Rightarrow>
          options_loop net options (data @ [make_row option (expiry_day instant) results])
      | Decoded (No_result printed) \<Rightarrow> options_loop net options data)"
  using assms
  by (simp add: get_book_summary_def Let_def split: fetch.splits body.splits prod.splits)

lemma options_loop_raise:
  assumes "expiry_instant option = Inl e"
  shows "options_loop net (option # options) data = (Inl e, [])"
  using assms by simp

text \<open>The example options: their expiry, their names, the day they expire.\<close>

lemma example_instants:
  "expiry_instant example_call = Inr 1735286400000000"
  "expiry_instant example_put = Inr 1735286400000000"
  "expiry_instant example_odd = Inr 1735286400000000"
  "expiry_instant (example_put\<lparr>instrument_name := name\<rparr>) = Inr 1735286400000000"
  by (simp_all add: expiry_instant_milliseconds example_call_def example_put_def example_odd_def)

lemma example_names:
  "instrument_name example_call = ''BTC-27DEC24-60000-C''"
  "instrument_name example_put = ''BTC-27DEC24-60000-P''"
  "instrument_name example_odd = ''BTC-27DEC24-70000-C''"
  "option_type example_odd = ''Call''"
  by (simp_all add: example_call_def example_put_def example_odd_def)

lemma example_day: "expiry_day 1735286400000000 = 20084"
  by (simp add: expiry_day_def timedelta_days_def)

text \<open>
  Two calls that raise: the filter when seven days from now is past the year 9999, and
  the table when no row has been gathered.
\<close>

lemma raising_examples:
  "filter_weekly_expiry_options datetime_max [] = Inl OverflowError"
  "create_options_df example_exchange [example_put] =
     (Inl ValueError,
      [Error ''Error decoding JSON response for BTC-27DEC24-60000-P: Bad Gateway''])"
  by (simp_all add: filter_weekly_expiry_options_def datetime_add_def datetime_max_def
      datetime_min_def timedelta_days_def create_options_df_def options_loop_step
      example_instants example_names example_exchange_def del: options_loop.simps(2))

text \<open>
  Claim C9. An instrument whose \<^verbatim>\<open>option_type\<close> is any string other than \<^verbatim>\<open>call\<close> gets
  the option type \<^verbatim>\<open>Put\<close> in its row, whatever its expiry and whatever books its summary
  holds, so its label is one of the two put labels or \<^verbatim>\<open>Neutral\<close>; and when its summary
  has a \<^verbatim>\<open>result\<close>, that row is the row of the table, unless the conversion of the
  expiry raised before the summary was fetched.
\<close>

theorem non_call_becomes_put:
  assumes "option_type option \<noteq> ''call''"
  shows "Option_Type (make_row option expiry_date results) = ''Put'' \<and>
         identify_writers_with_iv (make_row option expiry_date results) \<in>
           {''Put Writers (IV Falling)'', ''Put Buyers (IV Rising)'', ''Neutral''} \<and>
         (net (instrument_name option) = Decoded (Has_result results) \<longrightarrow>
            create_options_df net [option] =
              (case expiry_instant option of
                 Inl e \<Rightarrow> (Inl e, [])
               | Inr instant \<Rightarrow>
                   (Inr [annotate (make_row option (expiry_day instant) results)], [])) \<and>
            Instrument (annotate (make_row option expiry_date results)) = instrument_name option \<and>
            Option_Type (annotate (make_row option expiry_date results)) = ''Put'' \<and>
            Writer_Type (annotate (make_row option expiry_date results)) \<in>
              {''Put Writers (IV Falling)'', ''Put Buyers (IV Rising)'', ''Neutral''})"
proof -
  have put: "Option_Type (make_row option expiry_date results) = ''Put''"
    using assms by (simp add: make_row_def Let_def)
  then have label: "identify_writers_with_iv (make_row option expiry_date results) \<in>
      {''Put Writers (IV Falling)'', ''Put Buyers (IV Rising)'', ''Neutral''}"
    by (simp add: identify_writers_with_iv_def Let_def)
  have "create_options_df net [option] =
      (case expiry_instant option of
         Inl e \<Rightarrow> (Inl e, [])
       | Inr instant \<Rightarrow> (Inr [annotate (make_row option (expiry_day instant) results)], []))"
    if "net (instrument_name option) = Decoded (Has_result results)"
    using that
    by (cases "expiry_instant option")
      (simp_all add: create_options_df_def options_loop_step options_loop_raise
        apply_identify_def del: options_loop.simps(2))
  moreover have "Instrument (annotate (make_row option expiry_date results)) = instrument_name option"
    by (simp add: annotate_def make_row_def Let_def)
  moreover have "Option_Type (annotate (make_row option expiry_date results)) = ''Put''"
    using put by (simp add: annotate_def)
  moreover have "Writer_Type (annotate (make_row option expiry_date results)) \<in>
      {''Put Writers (IV Falling)'', ''Put Buyers (IV Rising)'', ''Neutral''}"
    using label by (simp add: annotate_def)
  ultimately show ?thesis
    using put label by blast
qed

text \<open>
  The theorem at the option whose type is spelled \<^verbatim>\<open>Call\<close>: it is not a \<^verbatim>\<open>call\<close>, and
  its row says \<^verbatim>\<open>Put\<close>.
\<close>

theorem non_call_becomes_put_witness:
  "option_type example_odd \<noteq> ''call'' \<and>
   example_exchange (instrument_name example_odd) = Decoded (Has_result []) \<and>
   Option_Type (make_row example_odd 20084 []) = ''Put'' \<and>
   create_options_df example_exchange [example_odd] =
     (Inr [annotate (make_row example_odd 20084 [])], []) \<and>
   Option_Type (annotate (make_row example_odd 20084 [])) = ''Put'' \<and>
   Writer_Type (annotate (make_row example_odd 20084 [])) \<in>
     {''Put Writers (IV Falling)'', ''Put Buyers (IV Rising)'', ''Neutral''}"
  using non_call_becomes_put
    [where option = example_odd and results = "[]" and net = example_exchange
       and expiry_date = 20084]
  by (simp add: example_instants example_names example_day example_exchange_def)

text \<open>
  Claim C10. A summary that decodes and has a \<^verbatim>\<open>result\<close> which is the empty list does
  not skip the instrument: the loop goes on with one more row, whose three fields are
  absent and whose label is \<^verbatim>\<open>Neutral\<close>, and the table of that one instrument is that one
  row. A body that does not decode and a decoded object without \<^verbatim>\<open>result\<close> both leave
  the rows as they were; the first also puts an error on the page. In each case the
  summary is fetched only once the expiry has been converted; a conversion that raises
  ends the loop before.
\<close>

theorem empty_result_list_gives_neutral_row:
  "(net (instrument_name option) = Decoded (Has_result []) \<longrightarrow>
      options_loop net (option # rest) data =
        (case expiry_instant option of
           Inl e \<Rightarrow> (Inl e, [])
         | Inr instant \<Rightarrow>
             options_loop net rest (data @ [make_row option (expiry_day instant) []])) \<and>
      Open_Interest (make_row option expiry_date []) = None \<and>
      IV_Change (make_row option expiry_date []) = None \<and>
      Price_Change (make_row option expiry_date []) = None \<and>
      identify_writers_with_iv (make_row option expiry_date []) = ''Neutral'' \<and>
      create_options_df net [option] =
        (case expiry_instant option of
           Inl e \<Rightarrow> (Inl e, [])
         | Inr instant \<Rightarrow>
             (Inr [\<lparr>Instrument = instrument_name option,
                    Expiry = expiry_day instant,
                    Strike_Price = strike option,
                    Option_Type = (if option_type option = ''call'' then ''Call'' else ''Put''),
                    Open_Interest = None, IV_Change = None, Price_Change = None,
                    Writer_Type = ''Neutral''\<rparr>], []))) \<and>
   (net (instrument_name option) = Undecodable raw \<longrightarrow>
      options_loop net (option # rest) data =
        (case expiry_instant option of
           Inl e \<Rightarrow> (Inl e, [])
         | Inr instant \<Rightarrow>
             (case options_loop net rest data of
                (r, out) \<Rightarrow>
                  (r, Error (''Error decoding JSON response for '' @ instrument_name option @
                             '': '' @ raw) # out)))) \<and>
   (net (instrument_name option) = Decoded (No_result printed) \<longrightarrow>
      options_loop net (option # rest) data =
        (case expiry_instant option of
           Inl e \<Rightarrow> (Inl e, [])
         | Inr instant \<Rightarrow> options_loop net rest data))"
  by (cases "expiry_instant option")
    (simp_all add: options_loop_step options_loop_raise create_options_df_def
      apply_identify_def annotate_def make_row_def dict_get_def identify_writers_with_iv_def
      notnull_else_0_def Let_def del: options_loop.simps(2))

text \<open>
  The theorem at the three kinds of answer of the example exchange: an empty list of
  books, a body that is not JSON, an object without \<^verbatim>\<open>result\<close>.
\<close>

theorem empty_result_list_gives_neutral_row_witness:
  "example_exchange (instrument_name example_odd) = Decoded (Has_result []) \<and>
   options_loop example_exchange [example_odd] [] = (Inr [make_row example_odd 20084 []], []) \<and>
   identify_writers_with_iv (make_row example_odd 20084 []) = ''Neutral'' \<and>
   example_exchange (instrument_name example_put) = Undecodable ''Bad Gateway'' \<and>
   options_loop example_exchange [example_put] [] =
     (Inr [], [Error ''Error decoding JSON response for BTC-27DEC24-60000-P: Bad Gateway'']) \<and>
   example_exchange (instrument_name (example_put\<lparr>instrument_name := ''BTC-3JAN25-60000-P''\<rparr>)) =
     Decoded (No_result ''{}'') \<and>
   options_loop example_exchange [example_put\<lparr>instrument_name := ''BTC-3JAN25-60000-P''\<rparr>] [] =
     (Inr [], [])"
  using empty_result_list_gives_neutral_row
      [where net = example_exchange and option = example_odd and rest = "[]" and data = "[]"
         and expiry_date = 20084]
    empty_result_list_gives_neutral_row
      [where net = example_exchange and option = example_put and rest = "[]" and data = "[]"
         and raw = "''Bad Gateway''"]
    empty_result_list_gives_neutral_row
      [where net = example_exchange
         and option = "example_put\<lparr>instrument_name := ''BTC-3JAN25-60000-P''\<rparr>"
         and rest = "[]" and data = "[]" and printed = "''{}''"]
  by (simp add: example_instants example_names example_day example_exchange_def)

text \<open>
  Claim C7 as the specification states it fails when the failure is one of the
  transport: \<^verbatim>\<open>requests.get\<close> raises, nothing catches the exception, and of three
  instruments whose second cannot be reached there is no table at all, and no error
  element for the instrument either.
\<close>

theorem transport_failure_counterexample:
  "create_options_df unreachable_exchange [example_call, example_put, example_odd] =
     (Inl RequestException, []) \<and>
   \<not> (\<exists>rows out.
        create_options_df unreachable_exchange [example_call, example_put, example_odd] =
          (Inr rows, out) \<and> length rows = 2)"
  by (simp add: create_options_df_def options_loop_step example_instants example_names
      unreachable_exchange_def example_exchange_def del: options_loop.simps(2))

text \<open>
  Claim C7, amended. When the body of the summary response of an instrument does not
  decode as JSON, an error naming the instrument is put on the page, the instrument is
  skipped (the rows gathered so far are unchanged) and the loop goes on with the
  remaining instruments. Of three filtered instruments (the filter has converted the
  expiry of each, so it converts again) of which exactly one has such a body, in any of
  the three positions, while the other two have a \<^verbatim>\<open>result\<close>, the table has exactly the
  two rows of the other two, in order, and the page has exactly the one error. A failure
  of the transport is not caught: the loop ends with the exception.
\<close>

theorem undecodable_summary_skips_instrument:
  "(net (instrument_name option) = Undecodable raw \<longrightarrow>
      options_loop net (option # rest) data =
        (case expiry_instant option of
           Inl e \<Rightarrow> (Inl e, [])
         | Inr instant \<Rightarrow>
             (case options_loop net rest data of
                (r, out) \<Rightarrow>
                  (r, Error (''Error decoding JSON response for '' @ instrument_name option @
                             '': '' @ raw) # out)))) \<and>
   (expiry_instant a = Inr ia \<and> expiry_instant b = Inr ib \<and> expiry_instant c = Inr ic \<and>
    net (instrument_name a) = Undecodable raw \<and>
    net (instrument_name b) = Decoded (Has_result rb) \<and>
    net (instrument_name c) = Decoded (Has_result rc) \<longrightarrow>
      create_options_df net [a, b, c] =
        (Inr [annotate (make_row b (expiry_day ib) rb), annotate (make_row c (expiry_day ic) rc)],
         [Error (''Error decoding JSON response for '' @ instrument_name a @
                 '': '' @ raw)])) \<and>
   (expiry_instant a = Inr ia \<and> expiry_instant b = Inr ib \<and> expiry_instant c = Inr ic \<and>
    net (instrument_name a) = Decoded (Has_result ra) \<and>
    net (instrument_name b) = Undecodable raw \<and>
    net (instrument_name c) = Decoded (Has_result rc) \<longrightarrow>
      create_options_df net [a, b, c] =
        (Inr [annotate (make_row a (expiry_day ia) ra), annotate (make_row c (expiry_day ic) rc)],
         [Error (''Error decoding JSON response for '' @ instrument_name b @
                 '': '' @ raw)])) \<and>
   (expiry_instant a = Inr ia \<and> expiry_instant b = Inr ib \<and> expiry_instant c = Inr ic \<and>
    net (instrument_name a) = Decoded (Has_result ra) \<and>
    net (instrument_name b) = Decoded (Has_result rb) \<and>
    net (instrument_name c) = Undecodable raw \<longrightarrow>
      create_options_df net [a, b, c] =
        (Inr [annotate (make_row a (expiry_day ia) ra), annotate (make_row b (expiry_day ib) rb)],
         [Error (''Error decoding JSON response for '' @ instrument_name c @
                 '': '' @ raw)])) \<and>
   (net (instrument_name option) = Transport_Error \<longrightarrow>
      options_loop net (option # rest) data =
        (case expiry_instant option of
           Inl e \<Rightarrow> (Inl e, [])
         | Inr instant \<Rightarrow> (Inl RequestException, [])))"
  by (cases "expiry_instant option")
    (simp_all add: options_loop_step options_loop_raise create_options_df_def
      apply_identify_def del: options_loop.simps(2))

text \<open>
  The theorem at the example exchange, where the put is the one of three that fails to
  decode, and at the exchange where the put cannot be reached.
\<close>

theorem undecodable_summary_skips_instrument_witness:
  "expiry_instant example_call = Inr 1735286400000000 \<and>
   expiry_instant example_put = Inr 1735286400000000 \<and>
   expiry_instant example_odd = Inr 1735286400000000 \<and>
   example_exchange (instrument_name example_call) = Decoded (Has_result [example_book]) \<and>
   example_exchange (instrument_name example_put) = Undecodable ''Bad Gateway'' \<and>
   example_exchange (instrument_name example_odd) = Decoded (Has_result []) \<and>
   create_options_df example_exchange [example_call, example_put, example_odd] =
     (Inr [annotate (make_row example_call 20084 [example_book]),
           annotate (make_row example_odd 20084 [])],
      [Error ''Error decoding JSON response for BTC-27DEC24-60000-P: Bad Gateway'']) \<and>
   unreachable_exchange (instrument_name example_put) = Transport_Error \<and>
   options_loop unreachable_exchange [example_put, example_odd] [] = (Inl RequestException, [])"
  using undecodable_summary_skips_instrument
    [where net = example_exchange and a = example_call and b = example_put
       and c = example_odd and ra = "[example_book]" and rc = "[]"
       and raw = "''Bad Gateway''" and ia = 1735286400000000 and ib = 1735286400000000
       and ic = 1735286400000000]
    undecodable_summary_skips_instrument
    [where net = unreachable_exchange and option = example_put
       and rest = "[example_odd]" and data = "[]"]
  by (simp add: example_instants example_names example_day example_exchange_def
      unreachable_exchange_def)

section \<open>Properties of the dashboard\<close>

text \<open>
  Claim C8 as the specification states it fails: an empty list of instruments does not
  pass the guard \<^verbatim>\<open>if btc_options:\<close>, so the page shows the error of the \<^verbatim>\<open>else\<close>
  branch and no warning, and the filter is not called.
\<close>

theorem empty_listing_counterexample:
  "dashboard example_now (Decoded (Has_result [])) example_exchange =
     (Inr (), [Title ''Bitcoin Weekly Options Dashboard (Deribit)'',
               Error ''Failed to fetch BTC options from Deribit.''])"
  by (simp add: dashboard_def get_all_btc_options_def)

text \<open>
  Claim C8, amended. When the lister returns an empty list, the page ends with the error
  \<^verbatim>\<open>Failed to fetch BTC options from Deribit.\<close>, after whatever the lister itself put on
  the page: the filter and the classifier are not called (the page does not depend on
  the exchange's summaries), and no table and no chart is rendered. The warning
  \<^verbatim>\<open>No weekly expiring options found.\<close>, again with no table and no chart, is what the
  page ends with when the lister returns a list that is not empty and the filter keeps
  none of it.
\<close>

theorem empty_listing_is_reported_as_failure:
  "(get_all_btc_options listing = (Inr [], out) \<longrightarrow>
      dashboard now listing net =
        (Inr (), Title ''Bitcoin Weekly Options Dashboard (Deribit)'' # out @
                 [Error ''Failed to fetch BTC options from Deribit.''])) \<and>
   (get_all_btc_options listing = (Inr btc_options, out) \<and> btc_options \<noteq> [] \<and>
    filter_weekly_expiry_options now btc_options = Inr [] \<longrightarrow>
      dashboard now listing net =
        (Inr (), Title ''Bitcoin Weekly Options Dashboard (Deribit)'' # out @
                 [Warning ''No weekly expiring options found.'']))"
  by (simp add: dashboard_def)

text \<open>
  The theorem at a listing whose \<^verbatim>\<open>result\<close> is the empty list, and at a listing of one
  call seen a day after it expired.
\<close>

theorem empty_listing_is_reported_as_failure_witness:
  "get_all_btc_options (Decoded (Has_result [])) = (Inr [], []) \<and>
   dashboard example_now (Decoded (Has_result [])) example_exchange =
     (Inr (), [Title ''Bitcoin Weekly Options Dashboard (Deribit)'',
               Error ''Failed to fetch BTC options from Deribit.'']) \<and>
   get_all_btc_options (Decoded (Has_result [example_call])) = (Inr [example_call], []) \<and>
   filter_weekly_expiry_options (example_now + timedelta_days 6) [example_call] = Inr [] \<and>
   dashboard (example_now + timedelta_days 6) (Decoded (Has_result [example_call]))
       example_exchange =
     (Inr (), [Title ''Bitcoin Weekly Options Dashboard (Deribit)'',
               Warning ''No weekly expiring options found.''])"
  using empty_listing_is_reported_as_failure
      [where listing = "Decoded (Has_result [])" and out = "[]" and now = example_now
         and net = example_exchange]
    empty_listing_is_reported_as_failure
      [where listing = "Decoded (Has_result [example_call])" and out = "[]"
         and now = "example_now + timedelta_days 6" and net = example_exchange
         and btc_options = "[example_call]"]
  by (simp add: get_all_btc_options_def filter_weekly_expiry_options_def datetime_add_def
      datetime_min_def datetime_max_def example_instants example_now_def timedelta_days_def)

end
